theory Spec2Isabelle
  imports Main
begin

section \<open>Values, stored rows, queries and orderings\<close>

text \<open>
  Attribute values are primitives of one type \<open>'v\<close> (all numbers, or all strings) on
  which JavaScript's \<open><\<close>, \<open>>\<close>, \<open><=\<close>, \<open>>=\<close> are the native order of the type and
  \<open>===\<close> is equality. An object is the list of its own enumerable data properties in
  insertion order; an object never holds one property name twice. Reading a property
  an object does not have gives \<open>undefined\<close>, here \<open>None\<close>.
\<close>

type_synonym 'v row = "(string \<times> 'v) list"

datatype operator = greaterThan | greaterThanOrEqual | lessThan | lessThanOrEqual

text \<open>
  A query value is a scalar (\<open>typeof v !== 'object'\<close>) or a range-operator object.
\<close>

datatype 'v qvalue = Scalar 'v | Range "(operator \<times> 'v) list"

type_synonym 'v attributes = "(string \<times> 'v qvalue) list"

text \<open>
  The \<open>orderBy\<close> argument: left out (\<open>undefined\<close>), \<open>null\<close>, or an object from
  attribute names to direction strings.
\<close>

datatype order_by = OrderUndefined | OrderNull | OrderObj "(string \<times> string) list"

datatype js_error = TypeError

section \<open>The mixin helpers (db-factory.js)\<close>

text \<open>
  \<open>getKeysFromObject\<close> walks \<open>for (key in object)\<close> and keeps the keys whose value
  is not a function; over \<open>undefined\<close> or \<open>null\<close> the loop body never runs.
\<close>

definition getKeysFromObject :: "(string \<times> 'a) list option \<Rightarrow> string list" where
  "getKeysFromObject object = (case object of None \<Rightarrow> [] | Some kvs \<Rightarrow> map fst kvs)"

definition getValuesFromObject :: "(string \<times> 'a) list option \<Rightarrow> 'a list" where
  "getValuesFromObject object = (case object of None \<Rightarrow> [] | Some kvs \<Rightarrow> map snd kvs)"

text \<open>\<open>getValuesFromObject(object, true)\<close>: the values of sub-objects are merged in place.\<close>

fun deepValues :: "'v qvalue \<Rightarrow> 'v list" where
  "deepValues (Scalar v) = [v]"
| "deepValues (Range ops) = map snd ops"

definition getValuesFromObject_deep :: "'v attributes option \<Rightarrow> 'v list" where
  "getValuesFromObject_deep object =
     (case object of None \<Rightarrow> [] | Some kvs \<Rightarrow> concat (map (deepValues \<circ> snd) kvs))"

definition isLast :: "nat \<Rightarrow> nat \<Rightarrow> bool" where
  "isLast index len = (index + 1 = len)"

definition isFirst :: "nat \<Rightarrow> bool" where
  "isFirst index = (index = 0)"

section \<open>The index engine adapter (indexed-db.js): pure query logic\<close>

subsection \<open>getDirection\<close>

datatype direction = Next | Prev

text \<open>
  \<open>Object.keys(null)\<close> throws; \<open>Object.keys(orderBy)[0]\<close> of an empty object is
  \<open>undefined\<close>, and \<open>orderBy[undefined]\<close> is \<open>undefined\<close>, which is not \<open>'asc'\<close>.
\<close>

definition getDirection :: "order_by \<Rightarrow> js_error + direction" where
  "getDirection orderBy =
     (case orderBy of
        OrderUndefined \<Rightarrow> Inr Next
      | OrderNull \<Rightarrow> Inl TypeError
      | OrderObj [] \<Rightarrow> Inr Prev
      | OrderObj ((k, d) # _) \<Rightarrow> (if d = ''asc'' then Inr Next else Inr Prev))"

subsection \<open>isValidQuery\<close>

text \<open>
  The two counters are Numbers. A Number has no \<open>length\<close> property, so
  \<open>lowerboundCount.length\<close> evaluates to \<open>undefined\<close> whatever the count is.
\<close>

definition number_length :: "nat \<Rightarrow> nat option" where
  "number_length n = None"

text \<open>\<open>x > 0\<close> where \<open>x\<close> may be \<open>undefined\<close>: \<open>undefined\<close> converts to NaN, and the test is false.\<close>

definition gt_zero :: "nat option \<Rightarrow> bool" where
  "gt_zero x = (case x of None \<Rightarrow> False | Some n \<Rightarrow> n > 0)"

definition hasOp :: "operator \<Rightarrow> (operator \<times> 'v) list \<Rightarrow> bool" where
  "hasOp rule query = (rule \<in> set (map fst query))"

fun countBounds :: "nat \<times> nat \<Rightarrow> 'v qvalue \<Rightarrow> nat \<times> nat" where
  "countBounds (lowerboundCount, upperBoundCount) (Scalar v) =
     (lowerboundCount + 1, upperBoundCount + 1)"
| "countBounds (lowerboundCount, upperBoundCount) (Range query) =
     (let lowerboundCount' =
            (if hasOp greaterThanOrEqual query \<or> hasOp greaterThan query
             then lowerboundCount + 1 else lowerboundCount);
          upperBoundCount' =
            (if hasOp lessThanOrEqual query \<or> hasOp lessThan query
             then upperBoundCount + 1 else upperBoundCount)
      in (lowerboundCount', upperBoundCount'))"

definition isValidQuery :: "'v attributes option \<Rightarrow> bool" where
  "isValidQuery attributes =
     (let values = getValuesFromObject attributes in
      if length values = 1 then True
      else
        (let (lowerboundCount, upperBoundCount) = foldl countBounds (0, 0) values in
         if number_length upperBoundCount = number_length lowerboundCount then True
         else if number_length lowerboundCount \<noteq> number_length upperBoundCount \<and>
                 (gt_zero (number_length lowerboundCount) \<and>
                  gt_zero (number_length upperBoundCount)) then False
         else if number_length lowerboundCount \<noteq> number_length upperBoundCount then True
         else True))"

text \<open>
  The validity rule in the words of the README and of the specification: a query of one
  attribute is valid; otherwise the number of attributes with a lower bound must equal
  the number with an upper bound, or one of the two numbers must be zero.
\<close>

definition isValidQuery_documented :: "'v attributes option \<Rightarrow> bool" where
  "isValidQuery_documented attributes =
     (let values = getValuesFromObject attributes in
      if length values = 1 then True
      else
        (let (lowerboundCount, upperBoundCount) = foldl countBounds (0, 0) values in
         lowerboundCount = upperBoundCount \<or> lowerboundCount = 0 \<or> upperBoundCount = 0))"

subsection \<open>generateIDBKeyRange\<close>

text \<open>
  A bound handed to \<open>IDBKeyRange\<close> is a single value or an array of values; a range is
  built by \<open>IDBKeyRange.lowerBound\<close>, \<open>upperBound\<close> or \<open>bound\<close>.
\<close>

datatype 'v idb_key = KScalar 'v | KArray "'v list"

datatype 'v key_range =
    LowerBound "'v idb_key" bool
  | UpperBound "'v idb_key" bool
  | Bound "'v idb_key" "'v idb_key" bool bool

text \<open>
  The first loop: the accumulator is the array \<open>lowerbound\<close> and the flag \<open>lowerOpen\<close>.
  \<open>query.greaterThanOrEqual\<close> reads the property that \<open>indexOf\<close> has just found.
\<close>

fun lowerStep :: "'v list \<times> bool \<Rightarrow> 'v qvalue \<Rightarrow> 'v list \<times> bool" where
  "lowerStep (lowerbound, lowerOpen) (Scalar v) = (lowerbound @ [v], lowerOpen)"
| "lowerStep (lowerbound, lowerOpen) (Range query) =
     (case map_of query greaterThanOrEqual of
        Some v \<Rightarrow> (lowerbound @ [v], lowerOpen)
      | None \<Rightarrow>
          (case map_of query greaterThan of
             Some v \<Rightarrow> (lowerbound @ [v], True)
           | None \<Rightarrow> (lowerbound, lowerOpen)))"

fun upperStep :: "'v list \<times> bool \<Rightarrow> 'v qvalue \<Rightarrow> 'v list \<times> bool" where
  "upperStep (upperBound, upperOpen) (Scalar v) = (upperBound @ [v], upperOpen)"
| "upperStep (upperBound, upperOpen) (Range query) =
     (case map_of query lessThanOrEqual of
        Some v \<Rightarrow> (upperBound @ [v], upperOpen)
      | None \<Rightarrow>
          (case map_of query lessThan of
             Some v \<Rightarrow> (upperBound @ [v], True)
           | None \<Rightarrow> (upperBound, upperOpen)))"

text \<open>\<open>b.length === 1 ? b[0] : b\<close>\<close>

fun unwrap :: "'v list \<Rightarrow> 'v idb_key" where
  "unwrap [v] = KScalar v"
| "unwrap vs = KArray vs"

text \<open>An array, the empty one too, is truthy.\<close>

definition truthy_array :: "'v list \<Rightarrow> bool" where
  "truthy_array xs = True"

definition generateIDBKeyRange :: "'v attributes option \<Rightarrow> 'v key_range" where
  "generateIDBKeyRange attributes =
     (let values = getValuesFromObject attributes;
          (lowerbound, lowerOpen) = foldl lowerStep ([], False) values;
          (upperBound, upperOpen) = foldl upperStep ([], False) values
      in if length lowerbound \<noteq> length upperBound \<and> truthy_array lowerbound
         then LowerBound (unwrap lowerbound) lowerOpen
         else if length lowerbound \<noteq> length upperBound \<and> truthy_array upperBound
         then UpperBound (unwrap upperBound) upperOpen
         else Bound (unwrap lowerbound) (unwrap upperBound) lowerOpen upperOpen)"

subsection \<open>reduce\<close>

text \<open>
  \<open>reduceOperators[rule](a, b)\<close>; \<open>a\<close> is \<open>result[key]\<close>, which is \<open>undefined\<close> when the
  row lacks the attribute, and every comparison with \<open>undefined\<close> is false.
\<close>

fun reduceOperators :: "operator \<Rightarrow> 'v::linorder option \<Rightarrow> 'v \<Rightarrow> bool" where
  "reduceOperators rule None b = False"
| "reduceOperators greaterThan (Some a) b = (a > b)"
| "reduceOperators greaterThanOrEqual (Some a) b = (a \<ge> b)"
| "reduceOperators lessThan (Some a) b = (a < b)"
| "reduceOperators lessThanOrEqual (Some a) b = (a \<le> b)"

text \<open>
  The inner \<open>for (var rule in ruleToCheck)\<close>: \<open>isValid\<close> is assigned at every rule and the
  \<open>break\<close> leaves this loop only.
\<close>

fun checkRules :: "'v::linorder option \<Rightarrow> (operator \<times> 'v) list \<Rightarrow> bool \<Rightarrow> bool" where
  "checkRules actualValue [] isValid = isValid"
| "checkRules actualValue ((rule, valueToBe) # rest) isValid =
     (let isValid' = reduceOperators rule actualValue valueToBe
      in if \<not> isValid' then isValid' else checkRules actualValue rest isValid')"

text \<open>
  The outer \<open>$.each(keys, ...)\<close>: the callback stops the iteration only by returning
  \<open>false\<close>, which the scalar branch does and the range branch does not.
\<close>

fun checkKeys :: "'v::linorder row \<Rightarrow> 'v attributes \<Rightarrow> bool \<Rightarrow> bool" where
  "checkKeys result [] isValid = isValid"
| "checkKeys result ((key, Range ruleToCheck) # rest) isValid =
     checkKeys result rest (checkRules (map_of result key) ruleToCheck isValid)"
| "checkKeys result ((key, Scalar v) # rest) isValid =
     (let isValid' = (map_of result key = Some v)
      in if \<not> isValid' then False else checkKeys result rest isValid')"

text \<open>
  The comparison function handed to \<open>sort\<close>. \<open>sortAttribute\<close> is \<open>undefined\<close> for an
  empty \<open>orderBy\<close> object, and then both reads are \<open>undefined\<close>.
\<close>

definition compareRows :: "string option \<Rightarrow> string option \<Rightarrow> 'v::linorder row \<Rightarrow> 'v row \<Rightarrow> int" where
  "compareRows sortAttribute direction a b =
     (case sortAttribute of
        None \<Rightarrow> 0
      | Some attr \<Rightarrow>
          (case (map_of a attr, map_of b attr) of
             (Some x, Some y) \<Rightarrow>
               (if x < y then (if direction = Some ''asc'' then - 1 else 1)
                else if x > y then (if direction = Some ''asc'' then 1 else - 1)
                else 0)
           | _ \<Rightarrow> 0))"

text \<open>
  \<open>Array.prototype.sort\<close> with a comparison function, as a stable insertion sort: an
  element moves in front of exactly those it compares below.
\<close>

fun sortInsert :: "('a \<Rightarrow> 'a \<Rightarrow> int) \<Rightarrow> 'a \<Rightarrow> 'a list \<Rightarrow> 'a list" where
  "sortInsert cmp x [] = [x]"
| "sortInsert cmp x (y # ys) =
     (if cmp y x > 0 then x # y # ys else y # sortInsert cmp x ys)"

definition arraySort :: "('a \<Rightarrow> 'a \<Rightarrow> int) \<Rightarrow> 'a list \<Rightarrow> 'a list" where
  "arraySort cmp xs = foldl (\<lambda>acc x. sortInsert cmp x acc) [] xs"

definition reduce :: "'v::linorder row list \<Rightarrow> 'v attributes option \<Rightarrow> order_by \<Rightarrow> 'v row list" where
  "reduce results attributes orderBy =
     (let attrs = (case attributes of None \<Rightarrow> [] | Some kvs \<Rightarrow> kvs);
          reducedResults = filter (\<lambda>result. checkKeys result attrs True) results
      in case orderBy of
           OrderObj ob \<Rightarrow>
             (let sortAttribute = (case ob of [] \<Rightarrow> None | (k, d) # _ \<Rightarrow> Some k);
                  direction = (case ob of [] \<Rightarrow> None | (k, d) # _ \<Rightarrow> Some d)
              in arraySort (compareRows sortAttribute direction) reducedResults)
         | _ \<Rightarrow> reducedResults)"

section \<open>The relational engine adapter (web-sql.js): statement text\<close>

fun operators :: "operator \<Rightarrow> string" where
  "operators greaterThan = ''>''"
| "operators greaterThanOrEqual = ''>=''"
| "operators lessThan = ''<''"
| "operators lessThanOrEqual = ''<=''"

text \<open>
  The inner \<open>$.each(operatorKeys, ...)\<close> of \<open>generateWhereClause\<close>: the prefix and the
  \<open>AND\<close> are decided by \<open>operatorIndex\<close>, the position inside this attribute's
  operator object.
\<close>

fun whereOperators :: "string \<Rightarrow> nat \<Rightarrow> nat \<Rightarrow> (operator \<times> 'v) list \<Rightarrow> string \<Rightarrow> string" where
  "whereOperators key operatorIndex len [] sql = sql"
| "whereOperators key operatorIndex len ((operatorKey, v) # rest) sql =
     whereOperators key (operatorIndex + 1) len rest
       (sql @ (if isFirst operatorIndex then '' WHERE '' else []) @
        key @ '' '' @ operators operatorKey @ '' ? '' @
        (if \<not> isLast operatorIndex len then ''AND '' else []))"

text \<open>The outer \<open>$.each(keys, ...)\<close>: the scalar branch decides by \<open>index\<close>.\<close>

fun whereKeys :: "nat \<Rightarrow> nat \<Rightarrow> 'v attributes \<Rightarrow> string \<Rightarrow> string" where
  "whereKeys index len [] sql = sql"
| "whereKeys index len ((key, Range ops) # rest) sql =
     whereKeys (index + 1) len rest (whereOperators key 0 (length ops) ops sql)"
| "whereKeys index len ((key, Scalar v) # rest) sql =
     whereKeys (index + 1) len rest
       (sql @ (if isFirst index then '' WHERE '' else []) @
        key @ '' = ? '' @ (if \<not> isLast index len then ''AND '' else []))"

definition generateWhereClause :: "'v attributes \<Rightarrow> string" where
  "generateWhereClause attributes = whereKeys 0 (length attributes) attributes []"

fun orderByKeys :: "nat \<Rightarrow> nat \<Rightarrow> (string \<times> string) list \<Rightarrow> string \<Rightarrow> string" where
  "orderByKeys index len [] sql = sql"
| "orderByKeys index len ((key, dir) # rest) sql =
     orderByKeys (index + 1) len rest
       (sql @ (if isFirst index then '' ORDER BY '' else []) @
        key @ '' '' @ dir @ '' '' @ (if \<not> isLast index len then '', '' else []))"

definition generateOrderByClause :: "(string \<times> string) list \<Rightarrow> string" where
  "generateOrderByClause attributes = orderByKeys 0 (length attributes) attributes []"

definition generateSelectQuery :: "string \<Rightarrow> 'v attributes option \<Rightarrow> order_by \<Rightarrow> string" where
  "generateSelectQuery modelName attributes orderBy =
     ''SELECT * FROM '' @ modelName @
     (case attributes of None \<Rightarrow> [] | Some a \<Rightarrow> generateWhereClause a) @
     (case orderBy of OrderObj ob \<Rightarrow> generateOrderByClause ob | _ \<Rightarrow> [])"

definition generateDeleteQuery :: "string \<Rightarrow> 'v attributes option \<Rightarrow> string" where
  "generateDeleteQuery modelName attributes =
     ''DELETE FROM '' @ modelName @
     (case attributes of None \<Rightarrow> [] | Some a \<Rightarrow> generateWhereClause a)"

text \<open>
  The WHERE clause in the words of the specification: one prefix, then one term per
  (attribute, operator) pair in the order the pairs are met, the terms joined by AND.
  The term text and the spacing are those of the source.
\<close>

fun clauseTerms :: "'v attributes \<Rightarrow> (string \<times> string) list" where
  "clauseTerms [] = []"
| "clauseTerms ((key, Scalar v) # rest) = (key, ''='') # clauseTerms rest"
| "clauseTerms ((key, Range ops) # rest) =
     map (\<lambda>(operatorKey, v). (key, operators operatorKey)) ops @ clauseTerms rest"

fun joinTerms :: "(string \<times> string) list \<Rightarrow> string" where
  "joinTerms [] = []"
| "joinTerms [(key, opr)] = key @ '' '' @ opr @ '' ? ''"
| "joinTerms ((key, opr) # rest) = key @ '' '' @ opr @ '' ? '' @ ''AND '' @ joinTerms rest"

definition whereClause_documented :: "'v attributes \<Rightarrow> string" where
  "whereClause_documented attributes =
     (case clauseTerms attributes of [] \<Rightarrow> [] | ts \<Rightarrow> '' WHERE '' @ joinTerms ts)"

section \<open>Promises and registries\<close>

text \<open>
  The state a promise ends in. \<open>Pending\<close> is the promise neither of whose callbacks is
  ever called: an exception thrown inside an engine event handler leaves the handler,
  not the promise's executor.
\<close>

datatype 'a promise = Fulfilled 'a | Rejected | Pending

text \<open>
  An entry of \<open>context.indexes[model]\<close>: an attribute name, or an array of attribute
  names. \<open>toString\<close> of an array joins its elements with commas.
\<close>

datatype index_spec = IxAttr string | IxCompound "string list"

fun joinComma :: "string list \<Rightarrow> string" where
  "joinComma [] = []"
| "joinComma [k] = k"
| "joinComma (k # ks) = k @ '','' @ joinComma ks"

fun toString :: "index_spec \<Rightarrow> string" where
  "toString (IxAttr a) = a"
| "toString (IxCompound ks) = joinComma ks"

text \<open>
  \<open>base.models\<close> (the registered model names), \<open>context.indexes\<close>, and the index
  engine's key generator, which supplies the \<open>id\<close> of a row stored without one.
  \<open>createFromObject\<close> and \<open>clone\<close> carry the data attributes of an entity over
  unchanged; the constructor of a model, called without arguments, leaves every
  attribute \<open>undefined\<close>.
\<close>

record 'v config =
  models :: "string list"
  indexes :: "(string \<times> index_spec list) list"
  keyGenerator :: "'v row list \<Rightarrow> 'v"

section \<open>The index engine, as the adapter drives it\<close>

text \<open>
  The browser's object-store engine is not part of the repository. This section fixes
  the behaviour of the calls the adapter makes, after the engine's standard: a store
  with key path \<open>id\<close> holds at most one row per key, in key order; \<open>put\<close> replaces the
  row of the same key; an index holds the rows that have every attribute of its key
  path, ordered by index key and, among equal keys, by store position; a number or a
  string is below every array, and arrays compare element by element, a proper prefix
  first.
\<close>

fun arrayLess :: "'v::linorder list \<Rightarrow> 'v list \<Rightarrow> bool" where
  "arrayLess [] [] = False"
| "arrayLess [] (y # ys) = True"
| "arrayLess (x # xs) [] = False"
| "arrayLess (x # xs) (y # ys) = (x < y \<or> (x = y \<and> arrayLess xs ys))"

instantiation idb_key :: (linorder) linorder
begin

fun less_idb_key :: "'a idb_key \<Rightarrow> 'a idb_key \<Rightarrow> bool" where
  "less_idb_key (KScalar a) (KScalar b) = (a < b)"
| "less_idb_key (KScalar a) (KArray bs) = True"
| "less_idb_key (KArray as) (KScalar b) = False"
| "less_idb_key (KArray as) (KArray bs) = arrayLess as bs"

definition less_eq_idb_key :: "'a idb_key \<Rightarrow> 'a idb_key \<Rightarrow> bool" where
  "less_eq_idb_key a b = (a = b \<or> a < b)"

instance
proof
  have irrefl: "\<not> arrayLess xs xs" for xs :: "'a list"
    by (induction xs) auto
  have trans: "arrayLess xs ys \<Longrightarrow> arrayLess ys zs \<Longrightarrow> arrayLess xs zs"
    for xs ys zs :: "'a list"
  proof (induction xs ys arbitrary: zs rule: arrayLess.induct)
    case (4 x xs y ys)
    then show ?case by (cases zs) auto
  qed (auto elim: arrayLess.elims)
  have total: "arrayLess xs ys \<or> xs = ys \<or> arrayLess ys xs" for xs ys :: "'a list"
    by (induction xs ys rule: arrayLess.induct) auto
  have asym: "arrayLess xs ys \<Longrightarrow> \<not> arrayLess ys xs" for xs ys :: "'a list"
    using irrefl trans by blast
  fix x y z :: "'a idb_key"
  show "(x < y) = (x \<le> y \<and> \<not> y \<le> x)"
    unfolding less_eq_idb_key_def
    by (cases x; cases y) (auto simp: irrefl dest: asym)
  show "x \<le> x" by (simp add: less_eq_idb_key_def)
  show "x \<le> y \<Longrightarrow> y \<le> z \<Longrightarrow> x \<le> z"
    unfolding less_eq_idb_key_def
    by (cases x; cases y; cases z) (auto dest: trans)
  show "x \<le> y \<Longrightarrow> y \<le> x \<Longrightarrow> x = y"
    unfolding less_eq_idb_key_def
    by (cases x; cases y) (auto dest: asym)
  show "x \<le> y \<or> y \<le> x"
    unfolding less_eq_idb_key_def
    using total by (cases x; cases y) auto
qed

end

text \<open>The object stores of the database, by name; each is the list of its rows in key order.\<close>

type_synonym 'v idb = "string \<Rightarrow> 'v row list"

definition rowId :: "'v row \<Rightarrow> 'v option" where
  "rowId r = map_of r ''id''"

fun orderedInsert :: "'v::linorder \<Rightarrow> 'v row \<Rightarrow> 'v row list \<Rightarrow> 'v row list" where
  "orderedInsert k row [] = [row]"
| "orderedInsert k row (r # rs) =
     (if (case rowId r of Some k' \<Rightarrow> k < k' | None \<Rightarrow> False) then row # r # rs
      else r # orderedInsert k row rs)"

text \<open>
  \<open>store.put(value)\<close> on a store with key path \<open>id\<close> and a key generator: the value's
  own \<open>id\<close> is its key; a value without one gets the generated key written into it.
\<close>

definition storePut :: "('v row list \<Rightarrow> 'v) \<Rightarrow> 'v::linorder row \<Rightarrow> 'v row list \<Rightarrow> 'v row list" where
  "storePut gen row rows =
     (case rowId row of
        Some k \<Rightarrow> orderedInsert k row (filter (\<lambda>r. rowId r \<noteq> Some k) rows)
      | None \<Rightarrow>
          (let k = gen rows
           in orderedInsert k (row @ [(''id'', k)]) (filter (\<lambda>r. rowId r \<noteq> Some k) rows)))"

definition storeGet :: "'v \<Rightarrow> 'v row list \<Rightarrow> 'v row option" where
  "storeGet k rows = find (\<lambda>r. rowId r = Some k) rows"

definition storeDelete :: "'v \<Rightarrow> 'v row list \<Rightarrow> 'v row list" where
  "storeDelete k rows = filter (\<lambda>r. rowId r \<noteq> Some k) rows"

fun readAll :: "string list \<Rightarrow> 'v row \<Rightarrow> 'v list option" where
  "readAll [] r = Some []"
| "readAll (k # ks) r =
     (case map_of r k of
        None \<Rightarrow> None
      | Some v \<Rightarrow> (case readAll ks r of None \<Rightarrow> None | Some vs \<Rightarrow> Some (v # vs)))"

text \<open>The index key of a row; a row without one of the attributes is not in the index.\<close>

fun indexKey :: "index_spec \<Rightarrow> 'v row \<Rightarrow> 'v idb_key option" where
  "indexKey (IxAttr a) r = (case map_of r a of None \<Rightarrow> None | Some v \<Rightarrow> Some (KScalar v))"
| "indexKey (IxCompound ks) r = (case readAll ks r of None \<Rightarrow> None | Some vs \<Rightarrow> Some (KArray vs))"

definition indexEntries :: "index_spec \<Rightarrow> 'v::linorder row list \<Rightarrow> ('v idb_key \<times> 'v row) list" where
  "indexEntries ix rows =
     sort_key fst
       (List.map_filter (\<lambda>r. case indexKey ix r of None \<Rightarrow> None | Some k \<Rightarrow> Some (k, r)) rows)"

fun inRange :: "'v::linorder key_range \<Rightarrow> 'v idb_key \<Rightarrow> bool" where
  "inRange (LowerBound l lowerOpen) k = (if lowerOpen then l < k else l \<le> k)"
| "inRange (UpperBound u upperOpen) k = (if upperOpen then k < u else k \<le> u)"
| "inRange (Bound l u lowerOpen upperOpen) k =
     ((if lowerOpen then l < k else l \<le> k) \<and> (if upperOpen then k < u else k \<le> u))"

text \<open>
  \<open>IDBKeyRange.bound\<close> throws a DataError when the lower key is above the upper key, or
  equal to it with an open end.
\<close>

fun rangeThrows :: "'v::linorder key_range \<Rightarrow> bool" where
  "rangeThrows (Bound l u lowerOpen upperOpen) = (u < l \<or> (l = u \<and> (lowerOpen \<or> upperOpen)))"
| "rangeThrows r = False"

text \<open>\<open>index.openCursor(range, direction)\<close> with \<open>continue()\<close> until the cursor is exhausted.\<close>

definition openIndexCursor ::
  "index_spec \<Rightarrow> 'v::linorder row list \<Rightarrow> 'v key_range \<Rightarrow> direction \<Rightarrow> 'v row list" where
  "openIndexCursor ix rows keyRange dir =
     (let entries = filter (\<lambda>e. inRange keyRange (fst e)) (indexEntries ix rows)
      in map snd (case dir of Next \<Rightarrow> entries | Prev \<Rightarrow> rev entries))"

text \<open>
  The indexes \<open>createObjectStore\<close> makes for a model: one per declared entry other than
  the string \<open>'id'\<close>, named by the entry's \<open>toString()\<close>, and the index \<open>id\<close> at the end.
\<close>

definition createdIndexes :: "index_spec list option \<Rightarrow> index_spec list" where
  "createdIndexes declared =
     (case declared of
        None \<Rightarrow> [IxAttr ''id'']
      | Some ixs \<Rightarrow> filter (\<lambda>ix. ix \<noteq> IxAttr ''id'') ixs @ [IxAttr ''id''])"

definition lookupIndex :: "index_spec list option \<Rightarrow> string \<Rightarrow> index_spec option" where
  "lookupIndex declared name = find (\<lambda>ix. toString ix = name) (createdIndexes declared)"

section \<open>The index engine adapter (indexed-db.js): the facade\<close>

text \<open>
  \<open>base.open\<close> is taken to succeed. Every function below the first runs its body inside
  the callback of \<open>base.open\<close>, an engine event handler: an exception thrown there
  leaves the promise pending.
\<close>

definition truthyAttributes :: "'v attributes option \<Rightarrow> bool" where
  "truthyAttributes attributes = (case attributes of None \<Rightarrow> False | Some a \<Rightarrow> True)"

definition truthyOrderBy :: "order_by \<Rightarrow> bool" where
  "truthyOrderBy orderBy = (case orderBy of OrderObj ob \<Rightarrow> True | _ \<Rightarrow> False)"

definition findObjectsByAttributeNoIndex ::
  "'v::linorder config \<Rightarrow> 'v idb \<Rightarrow> string \<Rightarrow> 'v attributes option \<Rightarrow> order_by \<Rightarrow> 'v row list promise" where
  "findObjectsByAttributeNoIndex cfg db modelName attributes orderBy =
     (if modelName \<notin> set (models cfg) then Rejected
      else
        (let results = db modelName
         in Fulfilled
              (if truthyAttributes attributes \<or> truthyOrderBy orderBy
               then reduce results attributes orderBy else results)))"

text \<open>
  \<open>objectStore.index(name)\<close> throws when the store has no index of that name; the two
  arguments of \<open>openCursor\<close> are then evaluated in order.
\<close>

definition findObjectsByAttributeWithIndex ::
  "'v::linorder config \<Rightarrow> 'v idb \<Rightarrow> string \<Rightarrow> 'v attributes option \<Rightarrow> order_by \<Rightarrow> 'v row list promise" where
  "findObjectsByAttributeWithIndex cfg db modelName attributes orderBy =
     (if modelName \<notin> set (models cfg) then Rejected
      else
        (let queryKeys = getKeysFromObject attributes
         in case lookupIndex (map_of (indexes cfg) modelName) (joinComma queryKeys) of
              None \<Rightarrow> Pending
            | Some ix \<Rightarrow>
                (let keyRange = generateIDBKeyRange attributes
                 in if rangeThrows keyRange then Pending
                    else
                      (case getDirection orderBy of
                         Inl e \<Rightarrow> Pending
                       | Inr dir \<Rightarrow> Fulfilled (openIndexCursor ix (db modelName) keyRange dir)))))"

definition findBy_idb ::
  "'v::linorder config \<Rightarrow> 'v idb \<Rightarrow> string \<Rightarrow> 'v attributes option \<Rightarrow> order_by \<Rightarrow> 'v row list promise" where
  "findBy_idb cfg db modelName attributes orderBy =
     (if modelName \<notin> set (models cfg) then Rejected
      else
        (let queryKeys = getKeysFromObject attributes
         in case map_of (indexes cfg) modelName of
              None \<Rightarrow> findObjectsByAttributeNoIndex cfg db modelName attributes orderBy
            | Some ixs \<Rightarrow>
                (if \<not> isValidQuery attributes
                 then findObjectsByAttributeNoIndex cfg db modelName attributes orderBy
                 else if list_ex (\<lambda>ix. joinComma queryKeys = toString ix) ixs
                 then findObjectsByAttributeWithIndex cfg db modelName attributes orderBy
                 else findObjectsByAttributeNoIndex cfg db modelName attributes orderBy)))"

text \<open>\<open>objectStore.get(id)\<close> throws a DataError when \<open>id\<close> is a plain object, not a key.\<close>

definition findObjectById ::
  "'v config \<Rightarrow> 'v idb \<Rightarrow> string \<Rightarrow> 'v qvalue \<Rightarrow> 'v row option promise" where
  "findObjectById cfg db modelName idv =
     (if modelName \<notin> set (models cfg) then Rejected
      else
        (case idv of
           Scalar k \<Rightarrow> Fulfilled (storeGet k (db modelName))
         | Range ops \<Rightarrow> Pending))"

definition firstOrNull :: "'a list promise \<Rightarrow> 'a option promise" where
  "firstOrNull p =
     (case p of
        Fulfilled returnedObject \<Rightarrow>
          Fulfilled (case returnedObject of [] \<Rightarrow> None | r # rest \<Rightarrow> Some r)
      | Rejected \<Rightarrow> Rejected
      | Pending \<Rightarrow> Pending)"

text \<open>\<open>keys.length === 1 && keys[0] === 'id'\<close> selects the lookup by key.\<close>

definition findOneBy_idb ::
  "'v::linorder config \<Rightarrow> 'v idb \<Rightarrow> string \<Rightarrow> 'v attributes option \<Rightarrow> order_by \<Rightarrow> 'v row option promise" where
  "findOneBy_idb cfg db modelName attributes orderBy =
     (case attributes of
        Some [(key, idv)] \<Rightarrow>
          (if key = ''id'' then findObjectById cfg db modelName idv
           else firstOrNull (findBy_idb cfg db modelName attributes orderBy))
      | _ \<Rightarrow> firstOrNull (findBy_idb cfg db modelName attributes orderBy))"

text \<open>
  \<open>insertObject\<close> reads \<open>base.models[modelName].createFromObject\<close> inside the callback
  of \<open>base.open\<close>, without a test for an unregistered name.
\<close>

definition insertObject_idb ::
  "'v::linorder config \<Rightarrow> 'v idb \<Rightarrow> string \<Rightarrow> 'v row \<Rightarrow> unit promise \<times> 'v idb" where
  "insertObject_idb cfg db modelName entity =
     (if modelName \<notin> set (models cfg) then (Pending, db)
      else (Fulfilled (), db(modelName := storePut (keyGenerator cfg) entity (db modelName))))"

text \<open>\<open>Promise.all\<close>: the first rejection rejects; otherwise all must be fulfilled.\<close>

definition promiseAll :: "unit promise list \<Rightarrow> unit promise" where
  "promiseAll ps =
     (if list_ex (\<lambda>p. p = Rejected) ps then Rejected
      else if list_ex (\<lambda>p. p = Pending) ps then Pending
      else Fulfilled ())"

fun insertEach ::
  "'v::linorder config \<Rightarrow> 'v idb \<Rightarrow> string \<Rightarrow> 'v row list \<Rightarrow> unit promise list \<times> 'v idb" where
  "insertEach cfg db modelName [] = ([], db)"
| "insertEach cfg db modelName (entity # rest) =
     (let (p, db') = insertObject_idb cfg db modelName entity;
          (ps, db'') = insertEach cfg db' modelName rest
      in (p # ps, db''))"

text \<open>\<open>insert\<close> takes one entity (\<open>Inl\<close>) or an array of entities (\<open>Inr\<close>).\<close>

definition insert_idb ::
  "'v::linorder config \<Rightarrow> 'v idb \<Rightarrow> string \<Rightarrow> 'v row + 'v row list \<Rightarrow> unit promise \<times> 'v idb" where
  "insert_idb cfg db modelName entity =
     (case entity of
        Inl e \<Rightarrow> insertObject_idb cfg db modelName e
      | Inr es \<Rightarrow> (let (ps, db') = insertEach cfg db modelName es in (promiseAll ps, db')))"

text \<open>
  \<open>deleteItem\<close>: \<open>item.modelName()\<close> is the model the item was read from. The third
  component lists the \<open>delete\<close> requests issued to the engine.
\<close>

definition deleteItem ::
  "'v idb \<Rightarrow> string \<Rightarrow> 'v row \<Rightarrow> unit promise \<times> 'v idb \<times> (string \<times> 'v) list" where
  "deleteItem db modelName item =
     (case rowId item of
        None \<Rightarrow> (Pending, db, [])
      | Some k \<Rightarrow> (Fulfilled (), db(modelName := storeDelete k (db modelName)), [(modelName, k)]))"

fun deleteEach ::
  "'v idb \<Rightarrow> string \<Rightarrow> 'v row list \<Rightarrow> unit promise list \<times> 'v idb \<times> (string \<times> 'v) list" where
  "deleteEach db modelName [] = ([], db, [])"
| "deleteEach db modelName (item # rest) =
     (let (p, db', log) = deleteItem db modelName item;
          (ps, db'', log') = deleteEach db' modelName rest
      in (p # ps, db'', log @ log'))"

definition deleteBy_idb ::
  "'v::linorder config \<Rightarrow> 'v idb \<Rightarrow> string \<Rightarrow> 'v attributes option
     \<Rightarrow> unit promise \<times> 'v idb \<times> (string \<times> 'v) list" where
  "deleteBy_idb cfg db modelName attributes =
     (case findBy_idb cfg db modelName attributes OrderUndefined of
        Rejected \<Rightarrow> (Rejected, db, [])
      | Pending \<Rightarrow> (Pending, db, [])
      | Fulfilled itemsToDelete \<Rightarrow>
          (if length itemsToDelete = 0 then (Fulfilled (), db, [])
           else
             (let (ps, db', log) = deleteEach db modelName itemsToDelete
              in (promiseAll ps, db', log))))"

section \<open>The relational engine adapter (web-sql.js): the facade\<close>

text \<open>
  The SQL engine is the browser's. It is a parameter here: given the statement text,
  the positional parameters and the tables, it answers with the result rows, or with
  \<open>None\<close> for a failed statement, and with the tables afterwards. Every facade
  function builds its statement inside the promise's executor, where an exception
  rejects the promise; \<open>model.modelName()\<close> throws for an unregistered name.
\<close>

type_synonym ('v, 't) sql_engine = "string \<Rightarrow> 'v qvalue list \<Rightarrow> 't \<Rightarrow> 'v row list option \<times> 't"

definition findBy_sql ::
  "'v config \<Rightarrow> ('v, 't) sql_engine \<Rightarrow> 't \<Rightarrow> string \<Rightarrow> 'v attributes option \<Rightarrow> order_by
     \<Rightarrow> 'v row list promise \<times> 't" where
  "findBy_sql cfg executeSql tables modelName attributes orderBy =
     (if modelName \<notin> set (models cfg) then (Rejected, tables)
      else
        (let sql = generateSelectQuery modelName attributes orderBy;
             vals = map Scalar (getValuesFromObject_deep attributes)
         in case executeSql sql vals tables of
              (None, tables') \<Rightarrow> (Rejected, tables')
            | (Some rows, tables') \<Rightarrow> (Fulfilled rows, tables')))"

definition findOneBy_sql ::
  "'v config \<Rightarrow> ('v, 't) sql_engine \<Rightarrow> 't \<Rightarrow> string \<Rightarrow> 'v attributes option \<Rightarrow> order_by
     \<Rightarrow> 'v row option promise \<times> 't" where
  "findOneBy_sql cfg executeSql tables modelName attributes orderBy =
     (let (p, tables') = findBy_sql cfg executeSql tables modelName attributes orderBy
      in (firstOrNull p, tables'))"

definition deleteBy_sql ::
  "'v config \<Rightarrow> ('v, 't) sql_engine \<Rightarrow> 't \<Rightarrow> string \<Rightarrow> 'v attributes option
     \<Rightarrow> unit promise \<times> 't" where
  "deleteBy_sql cfg executeSql tables modelName attributes =
     (if modelName \<notin> set (models cfg) then (Rejected, tables)
      else
        (let sql = generateDeleteQuery modelName attributes;
             vals = getValuesFromObject attributes
         in case executeSql sql vals tables of
              (None, tables') \<Rightarrow> (Rejected, tables')
            | (Some rows, tables') \<Rightarrow> (Fulfilled (), tables')))"

definition insertObject_sql ::
  "'v config \<Rightarrow> ('v, 't) sql_engine \<Rightarrow> 't \<Rightarrow> string \<Rightarrow> 'v row \<Rightarrow> unit promise \<times> 't" where
  "insertObject_sql cfg executeSql tables modelName entity =
     (if modelName \<notin> set (models cfg) then (Rejected, tables)
      else
        (let keys = getKeysFromObject (Some entity);
             vals = map Scalar (getValuesFromObject (Some entity));
             sql = ''INSERT OR REPLACE INTO '' @ modelName @ '' ('' @ joinComma keys @
                   '') VALUES ('' @ joinComma (map (\<lambda>key. ''?'') keys) @ '');''
         in case executeSql sql vals tables of
              (None, tables') \<Rightarrow> (Rejected, tables')
            | (Some rows, tables') \<Rightarrow> (Fulfilled (), tables')))"

section \<open>Reference notions and fixtures\<close>

text \<open>
  A row matches a query, in the words of the specification: for every queried
  attribute, a scalar term equals the row's value, and every operator of a range term
  holds of the row's value.
\<close>

definition matches_documented :: "'v::linorder row \<Rightarrow> 'v attributes \<Rightarrow> bool" where
  "matches_documented r attributes =
     list_all (\<lambda>(key, qv). case qv of
                 Scalar v \<Rightarrow> map_of r key = Some v
               | Range ops \<Rightarrow> list_all (\<lambda>(rule, b). reduceOperators rule (map_of r key) b) ops)
       attributes"











text \<open>
  The models of the repository's test suites: \<open>article\<close> and \<open>dummyModel(id, a, b, c)\<close>,
  here with numbers in every attribute, and declared indexes for \<open>dummyModel\<close>.
\<close>

definition dummyConfig :: "int config" where
  "dummyConfig =
     \<lparr> models = [''article'', ''dummyModel''],
       indexes = [(''dummyModel'', [IxAttr ''id'', IxAttr ''a'', IxCompound [''a'', ''b'']])],
       keyGenerator = (\<lambda>rows. int (length rows) + 1) \<rparr>"

definition dummyStore :: "int idb" where
  "dummyStore =
     (\<lambda>name. [])(''dummyModel'' :=
        [[(''id'', 1), (''a'', 12), (''b'', 50), (''c'', 1)],
         [(''id'', 2), (''a'', 12), (''b'', 5), (''c'', 1)],
         [(''id'', 3), (''a'', 20), (''b'', 7), (''c'', 2)]])"


section \<open>Properties\<close>

subsection \<open>Traversal direction\<close>

text \<open>
  C10. On the index engine the traversal is ascending (\<open>'next'\<close>) exactly when
  \<open>orderBy\<close> is left out or the direction of its first attribute is the string
  \<open>'asc'\<close>; every other direction value of the first attribute, \<open>'desc'\<close> or any
  other string, gives the descending traversal (\<open>'prev'\<close>).
\<close>

theorem getDirection_ascending_iff:
  "(getDirection orderBy = Inr Next) =
     (orderBy = OrderUndefined \<or> (\<exists>k rest. orderBy = OrderObj ((k, ''asc'') # rest)))
   \<and> (\<forall>k d rest. d \<noteq> ''asc'' \<longrightarrow> getDirection (OrderObj ((k, d) # rest)) = Inr Prev)"
  by (auto simp: getDirection_def split: order_by.splits list.splits)

theorem getDirection_ascending_iff_witness:
  "''desc'' \<noteq> ''asc'' \<and> getDirection (OrderObj [(''id'', ''desc'')]) = Inr Prev
   \<and> ''ASC'' \<noteq> ''asc'' \<and> getDirection (OrderObj [(''id'', ''ASC'')]) = Inr Prev
   \<and> getDirection (OrderObj [(''id'', ''asc'')]) = Inr Next"
  using getDirection_ascending_iff [of "OrderObj [(''id'', ''asc'')]"]
        getDirection_ascending_iff [of OrderUndefined, THEN conjunct2, rule_format, of "''desc''" "''id''" "[]"]
        getDirection_ascending_iff [of OrderUndefined, THEN conjunct2, rule_format, of "''ASC''" "''id''" "[]"]
  by simp

subsection \<open>Query validity\<close>

lemma isValidQuery_always: "isValidQuery attributes"
  by (simp add: isValidQuery_def number_length_def Let_def split: prod.splits)

text \<open>
  C2. The documented rule calls a query of several attributes valid when as many
  attributes carry a lower bound as carry an upper bound, or when one of the two
  numbers is zero, so that \<open>{a: {lessThanOrEqual: 15}, b: {greaterThanOrEqual: 1,
  lessThanOrEqual: 10}}\<close> is invalid and is answered by the scan. \<open>isValidQuery\<close>
  compares the \<open>length\<close> of its two counters, which is \<open>undefined\<close> for both, and
  answers true for every query: on this query it answers true where the documented rule
  answers false, and \<open>findBy\<close> goes to the index on \<open>a, b\<close>, whose answer is not
  the scan's.
\<close>

theorem isValidQuery_unbalanced_query:
  "isValidQuery (Some [(''a'', Range [(lessThanOrEqual, 15::int)]),
                       (''b'', Range [(greaterThanOrEqual, 1), (lessThanOrEqual, 10)])])
   \<and> \<not> isValidQuery_documented
          (Some [(''a'', Range [(lessThanOrEqual, 15::int)]),
                 (''b'', Range [(greaterThanOrEqual, 1), (lessThanOrEqual, 10)])])
   \<and> findBy_idb dummyConfig dummyStore ''dummyModel''
        (Some [(''a'', Range [(lessThanOrEqual, 15)]),
               (''b'', Range [(greaterThanOrEqual, 1), (lessThanOrEqual, 10)])]) OrderUndefined
     = findObjectsByAttributeWithIndex dummyConfig dummyStore ''dummyModel''
        (Some [(''a'', Range [(lessThanOrEqual, 15)]),
               (''b'', Range [(greaterThanOrEqual, 1), (lessThanOrEqual, 10)])]) OrderUndefined
   \<and> findBy_idb dummyConfig dummyStore ''dummyModel''
        (Some [(''a'', Range [(lessThanOrEqual, 15)]),
               (''b'', Range [(greaterThanOrEqual, 1), (lessThanOrEqual, 10)])]) OrderUndefined
     \<noteq> findObjectsByAttributeNoIndex dummyConfig dummyStore ''dummyModel''
        (Some [(''a'', Range [(lessThanOrEqual, 15)]),
               (''b'', Range [(greaterThanOrEqual, 1), (lessThanOrEqual, 10)])]) OrderUndefined"
  by (simp add: isValidQuery_always isValidQuery_documented_def getValuesFromObject_def hasOp_def
        findBy_idb_def dummyConfig_def dummyStore_def getKeysFromObject_def
        findObjectsByAttributeWithIndex_def findObjectsByAttributeNoIndex_def
        lookupIndex_def createdIndexes_def generateIDBKeyRange_def truthy_array_def
        getDirection_def openIndexCursor_def indexEntries_def List.map_filter_def
        less_eq_idb_key_def truthyAttributes_def reduce_def)

subsection \<open>Key ranges\<close>

lemma generateIDBKeyRange_never_upper: "generateIDBKeyRange attributes \<noteq> UpperBound u upperOpen"
  by (simp add: generateIDBKeyRange_def truthy_array_def Let_def split: prod.splits)

text \<open>
  C3. The range of a query is to be a lower-bound-only range when only lower bounds are
  given, an upper-bound-only range when only upper bounds are given, and a bounded range
  otherwise. The test that guards the lower-bound-only branch, \<open>lowerbound.length !==
  upperBound.length && lowerbound\<close>, holds whenever the two lengths differ, an array
  being truthy: for \<open>{a: {lessThan: 5}}\<close> the result is
  \<open>IDBKeyRange.lowerBound([], false)\<close>, not an upper bound at 5.
\<close>

theorem generateIDBKeyRange_upper_only_query:
  "generateIDBKeyRange (Some [(''a'', Range [(lessThan, 5::int)])]) = LowerBound (KArray []) False"
  by (simp add: generateIDBKeyRange_def getValuesFromObject_def truthy_array_def)

subsection \<open>The WHERE clause\<close>

text \<open>
  C4. The clause is to hold one \<open>WHERE\<close> prefix and one term per (attribute, operator)
  pair, joined by \<open>AND\<close>. For the query of the adapter's own usage note, \<open>{studio: 5671,
  date: {greaterThanOrEqual: .., lessThanOrEqual: ..}}\<close>, \<open>generateWhereClause\<close> writes
  the prefix a second time; for \<open>{a: {greaterThan: 1}, b: 2}\<close> it leaves out the \<open>AND\<close>
  between the two terms.
\<close>

theorem generateWhereClause_usage_example:
  "generateWhereClause
     [(''studio'', Scalar (5671::int)),
      (''date'', Range [(greaterThanOrEqual, 20140814), (lessThanOrEqual, 20140818)])]
   = '' WHERE studio = ? AND  WHERE date >= ? AND date <= ? ''
   \<and> whereClause_documented
     [(''studio'', Scalar (5671::int)),
      (''date'', Range [(greaterThanOrEqual, 20140814), (lessThanOrEqual, 20140818)])]
   = '' WHERE studio = ? AND date >= ? AND date <= ? ''
   \<and> generateWhereClause [(''a'', Range [(greaterThan, 1::int)]), (''b'', Scalar 2)]
   = '' WHERE a > ? b = ? ''"
  by (simp add: generateWhereClause_def whereClause_documented_def isFirst_def isLast_def)

subsection \<open>The scan filter\<close>

text \<open>
  C5. \<open>reduce\<close> is to keep a row exactly when every operator on every queried
  attribute holds of it and every scalar term equals its value; a row that fails a range
  operator is dropped whatever a later attribute says. For \<open>{a: {greaterThan: 5}, b: 1}\<close>
  and the row \<open>{id: 1, a: 1, b: 1}\<close>, \<open>reduce\<close> keeps the row, which does not match.
\<close>

theorem reduce_keeps_failed_range:
  "reduce [[(''id'', 1), (''a'', 1), (''b'', 1::int)]]
          (Some [(''a'', Range [(greaterThan, 5)]), (''b'', Scalar 1)]) OrderUndefined
   = [[(''id'', 1), (''a'', 1), (''b'', 1)]]
   \<and> \<not> matches_documented [(''id'', 1), (''a'', 1), (''b'', 1::int)]
          [(''a'', Range [(greaterThan, 5)]), (''b'', Scalar 1)]"
  by (simp add: reduce_def matches_documented_def)

subsection \<open>Upsert\<close>







subsection \<open>Empty results\<close>

text \<open>
  C7. When no stored row matches the query, \<open>findBy\<close> is to resolve with an empty array
  and \<open>findOneBy\<close> with \<open>null\<close>. On the index engine, no row of the store matches
  \<open>{b: {greaterThan: 100}, c: 2}\<close>, yet \<open>findBy\<close> resolves with the row of id 3 and
  \<open>findOneBy\<close> with that row; and no row matches \<open>{id: {greaterThan: 999}}\<close>, yet
  \<open>findOneBy\<close> hands the operator object to \<open>objectStore.get\<close> and never settles.
\<close>

theorem findBy_nonempty_without_match:
  "list_all (\<lambda>r. \<not> matches_documented r [(''b'', Range [(greaterThan, 100)]), (''c'', Scalar 2)])
     (dummyStore ''dummyModel'')
   \<and> findBy_idb dummyConfig dummyStore ''dummyModel''
        (Some [(''b'', Range [(greaterThan, 100)]), (''c'', Scalar 2)]) OrderUndefined
      = Fulfilled [[(''id'', 3), (''a'', 20), (''b'', 7), (''c'', 2)]]
   \<and> findOneBy_idb dummyConfig dummyStore ''dummyModel''
        (Some [(''b'', Range [(greaterThan, 100)]), (''c'', Scalar 2)]) OrderUndefined
      = Fulfilled (Some [(''id'', 3), (''a'', 20), (''b'', 7), (''c'', 2)])
   \<and> list_all (\<lambda>r. \<not> matches_documented r [(''id'', Range [(greaterThan, 999)])])
        (dummyStore ''dummyModel'')
   \<and> findOneBy_idb dummyConfig dummyStore ''dummyModel''
        (Some [(''id'', Range [(greaterThan, 999)])]) OrderUndefined = Pending"
  by (simp add: matches_documented_def dummyStore_def dummyConfig_def findBy_idb_def
        findOneBy_idb_def firstOrNull_def findObjectById_def isValidQuery_always
        findObjectsByAttributeNoIndex_def getKeysFromObject_def truthyAttributes_def reduce_def)

subsection \<open>Unregistered models\<close>

lemma unknown_model_rejected:
  assumes "modelName \<notin> set (models cfg)"
  shows "findBy_idb cfg db modelName attributes orderBy = Rejected"
    and "findOneBy_idb cfg db modelName attributes orderBy = Rejected"
    and "deleteBy_idb cfg db modelName attributes = (Rejected, db, [])"
    and "findBy_sql cfg executeSql tables modelName attributes orderBy = (Rejected, tables)"
    and "findOneBy_sql cfg executeSql tables modelName attributes orderBy = (Rejected, tables)"
    and "deleteBy_sql cfg executeSql tables modelName attributes = (Rejected, tables)"
    and "insertObject_sql cfg executeSql tables modelName entity = (Rejected, tables)"
  using assms
  by (auto simp: findBy_idb_def findOneBy_idb_def deleteBy_idb_def findBy_sql_def
        findOneBy_sql_def deleteBy_sql_def insertObject_sql_def firstOrNull_def
        findObjectById_def split: option.splits list.splits)

text \<open>
  C8. For a model name that is not registered, \<open>findBy\<close>, \<open>findOneBy\<close>, \<open>deleteBy\<close>
  and \<open>insert\<close> are to reject, on both engines, and to leave the storage alone. On the
  index engine \<open>insert\<close> leaves the storage alone but its promise stays pending: the
  missing model raises a TypeError inside the callback of \<open>base.open\<close>.
\<close>

theorem insert_unknown_model_pending:
  "insert_idb dummyConfig dummyStore ''notAModel'' (Inl [(''id'', 1)]) = (Pending, dummyStore)
   \<and> fst (insert_idb dummyConfig dummyStore ''notAModel'' (Inr [[(''id'', 1)]])) = Pending"
  by (simp add: insert_idb_def insertObject_idb_def dummyConfig_def promiseAll_def)

subsection \<open>Deleting nothing\<close>

text \<open>
  C9. On the index engine, when \<open>findBy\<close> resolves with an empty array for a model
  and a query, \<open>deleteBy\<close> resolves without any \<open>delete\<close> request to the engine, and
  every store is as it was.
\<close>

theorem deleteBy_nothing_to_delete:
  "findBy_idb cfg db modelName attributes OrderUndefined = Fulfilled []
   \<Longrightarrow> deleteBy_idb cfg db modelName attributes = (Fulfilled (), db, [])"
  by (simp add: deleteBy_idb_def)

theorem deleteBy_nothing_to_delete_witness:
  "findBy_idb dummyConfig dummyStore ''dummyModel'' (Some [(''c'', Scalar 9)]) OrderUndefined
     = Fulfilled []
   \<and> deleteBy_idb dummyConfig dummyStore ''dummyModel'' (Some [(''c'', Scalar 9)])
     = (Fulfilled (), dummyStore, [])"
proof -
  have h: "findBy_idb dummyConfig dummyStore ''dummyModel'' (Some [(''c'', Scalar 9)])
             OrderUndefined = Fulfilled []"
    by (simp add: dummyStore_def dummyConfig_def findBy_idb_def isValidQuery_always
        findObjectsByAttributeNoIndex_def getKeysFromObject_def truthyAttributes_def reduce_def)
  show ?thesis using h deleteBy_nothing_to_delete [OF h] by simp
qed

subsection \<open>The indexed path and the scan\<close>

















































end
